theory Spec2Isabelle
  imports
    Main
    "HOL-Library.Multiset"
    "HOL-Library.Char_ord"
    "HOL-Library.List_Lexorder"
    "HOL-Library.Product_Lexorder"
begin

section \<open>The store: four tables of rows\<close>

text \<open>
  The server of \<^verbatim>\<open>src/App.js\<close> keeps no state of its own: every handler reads and writes
  the tables \<^verbatim>\<open>events\<close>, \<^verbatim>\<open>roles\<close>, \<^verbatim>\<open>volunteer_roles\<close> and \<^verbatim>\<open>volunteers\<close> through SQL
  statements. A table is a list of rows; a row is a record whose fields are the columns the
  statements name, prefixed with the alias the queries give the table (\<^verbatim>\<open>e\<close>, \<^verbatim>\<open>r\<close>, \<^verbatim>\<open>vr\<close>,
  \<^verbatim>\<open>v\<close>). Identifiers are natural numbers and date-times are integers (instants on the
  store's clock). The table \<^verbatim>\<open>organizations\<close> is read only by the public event listing and
  is left out.
\<close>

record event =
  e_id :: nat
  e_organizer_id :: nat
  e_title :: string
  e_description :: string
  e_date :: int
  e_location :: string

record role =
  r_id :: nat
  r_event_id :: nat
  r_name :: string
  r_description :: string
  r_required_volunteers :: int

record volunteer_role =
  vr_id :: nat
  vr_volunteer_id :: nat
  vr_role_id :: nat
  vr_attended :: bool

record volunteer =
  v_id :: nat
  v_name :: string
  v_email :: string

record store =
  events :: "event list"
  roles :: "role list"
  volunteer_roles :: "volunteer_role list"
  volunteers :: "volunteer list"

text \<open>
  The table declarations (column constraints, keys, foreign keys) are not among the sources.
  What they decide is whether the store takes a row a handler inserts, so they are a
  parameter: for each table written by the handlers, a predicate on the store as the
  statement finds it and the row to be inserted.
\<close>

record schema =
  events_accepts :: "store \<Rightarrow> event \<Rightarrow> bool"
  roles_accepts :: "store \<Rightarrow> role \<Rightarrow> bool"
  volunteer_roles_accepts :: "store \<Rightarrow> volunteer_role \<Rightarrow> bool"

text \<open>
  Modelled from the spec: the \<^verbatim>\<open>id\<close> column of a new row is generated by the store
  (the statements never supply it and read it back with \<^verbatim>\<open>RETURNING\<close>), and identifiers
  are unique surrogate keys. The generated key is one more than the largest key in the table.
\<close>

definition fresh_id :: "nat list \<Rightarrow> nat" where
  "fresh_id ids = Suc (fold max ids 0)"

text \<open>A statement or the JavaScript around it can throw; both end in the handler's catch.\<close>

datatype error = PgError | TypeError

section \<open>Requests and responses\<close>

text \<open>
  The decoded token payload \<^verbatim>\<open>{ userId, userType }\<close>. The kind is the string the token
  carries; the handlers compare it with \<^verbatim>\<open>'org'\<close> and \<^verbatim>\<open>'volunteer'\<close>.
\<close>

record user =
  userId :: nat
  userType :: string

text \<open>
  What \<^verbatim>\<open>authenticateToken\<close> finds in the request: no token in the Authorization header,
  a token \<^verbatim>\<open>jwt.verify\<close> rejects, or a token it decodes. Verification itself is the
  library's.
\<close>

datatype credential = NoToken | BadToken | Token user

text \<open>
  The four ways the handlers answer: \<^verbatim>\<open>res.sendStatus(c)\<close>, \<^verbatim>\<open>res.status(c).json(v)\<close>
  with a value, with \<^verbatim>\<open>{ error: m }\<close> and with \<^verbatim>\<open>{ message: m }\<close>
  (\<^verbatim>\<open>res.json(v)\<close> is status 200).
\<close>

datatype 'a response =
    SendStatus nat
  | Json nat 'a
  | JsonError nat string
  | JsonMessage nat string

fun status :: "'a response \<Rightarrow> nat" where
  "status (SendStatus c) = c"
| "status (Json c v) = c"
| "status (JsonError c m) = c"
| "status (JsonMessage c m) = c"

definition authenticateToken :: "credential \<Rightarrow> 'a response + user" where
  "authenticateToken cred =
     (case cred of
        NoToken \<Rightarrow> Inl (SendStatus 401)
      | BadToken \<Rightarrow> Inl (SendStatus 403)
      | Token u \<Rightarrow> Inr u)"

section \<open>POST /api/events\<close>

text \<open>
  One element of the request's \<^verbatim>\<open>roles\<close> array, and the request body. The array may be
  missing (\<open>None\<close>: iterating it throws) and an element may be \<^verbatim>\<open>null\<close> (\<open>None\<close>:
  reading \<^verbatim>\<open>role.name\<close> throws).
\<close>

record role_input =
  name :: string
  description :: string
  requiredVolunteers :: int

record event_body =
  req_title :: string
  req_description :: string
  req_date :: int
  req_location :: string
  req_roles :: "role_input option list option"

text \<open>\<^verbatim>\<open>INSERT INTO events (...) VALUES (...) RETURNING *\<close>\<close>

definition insert_event :: "schema \<Rightarrow> store \<Rightarrow> nat \<Rightarrow> event_body \<Rightarrow> error + (event \<times> store)" where
  "insert_event db w organizer body =
     (let row = \<lparr>e_id = fresh_id (map e_id (events w)),
                 e_organizer_id = organizer,
                 e_title = req_title body,
                 e_description = req_description body,
                 e_date = req_date body,
                 e_location = req_location body\<rparr>
      in if events_accepts db w row then Inr (row, w\<lparr>events := events w @ [row]\<rparr>)
         else Inl PgError)"

text \<open>The body of the loop: \<^verbatim>\<open>INSERT INTO roles (event_id, name, description, required_volunteers)\<close>\<close>

definition insert_role :: "schema \<Rightarrow> store \<Rightarrow> nat \<Rightarrow> role_input option \<Rightarrow> error + store" where
  "insert_role db w eid role =
     (case role of
        None \<Rightarrow> Inl TypeError
      | Some ri \<Rightarrow>
          (let row = \<lparr>r_id = fresh_id (map r_id (roles w)),
                      r_event_id = eid,
                      r_name = name ri,
                      r_description = description ri,
                      r_required_volunteers = requiredVolunteers ri\<rparr>
           in if roles_accepts db w row then Inr (w\<lparr>roles := roles w @ [row]\<rparr>)
              else Inl PgError))"

text \<open>
  \<^verbatim>\<open>for (const role of roles) { await client.query(...) }\<close>: the first throw leaves the
  loop. The result is the error thrown, if any, and the store as the statements that ran
  left it: the rows inserted before a throw are in it.
\<close>

fun insert_roles ::
  "schema \<Rightarrow> store \<Rightarrow> nat \<Rightarrow> role_input option list \<Rightarrow> error option \<times> store" where
  "insert_roles db w eid [] = (None, w)"
| "insert_roles db w eid (role # rest) =
     (case insert_role db w eid role of
        Inl err \<Rightarrow> (Some err, w)
      | Inr w' \<Rightarrow> insert_roles db w' eid rest)"

text \<open>
  The client's transaction, with the store's meaning of the three commands: \<^verbatim>\<open>BEGIN\<close> keeps
  the store as it was and works on a copy, every statement of the client reads and writes
  the copy, \<^verbatim>\<open>COMMIT\<close> makes the copy the store, \<^verbatim>\<open>ROLLBACK\<close> goes back to the store as it
  was.
\<close>

record client =
  snapshot :: store
  working :: store

definition BEGIN :: "store \<Rightarrow> client" where
  "BEGIN s = \<lparr>snapshot = s, working = s\<rparr>"

definition COMMIT :: "client \<Rightarrow> store" where
  "COMMIT c = working c"

definition ROLLBACK :: "client \<Rightarrow> store" where
  "ROLLBACK c = snapshot c"

text \<open>
  The statements of the try block between \<^verbatim>\<open>BEGIN\<close> and \<^verbatim>\<open>COMMIT\<close>, run on the client.
  A throw leaves the client holding what the statements before it wrote.
\<close>

definition createEvent ::
  "schema \<Rightarrow> user \<Rightarrow> event_body \<Rightarrow> client \<Rightarrow> (error + event) \<times> client" where
  "createEvent db u body c =
     (case insert_event db (working c) (userId u) body of
        Inl err \<Rightarrow> (Inl err, c)
      | Inr (newEvent, w1) \<Rightarrow>
          (case req_roles body of
             None \<Rightarrow> (Inl TypeError, c\<lparr>working := w1\<rparr>)
           | Some rs \<Rightarrow>
               (case insert_roles db w1 (e_id newEvent) rs of
                  (Some err, w2) \<Rightarrow> (Inl err, c\<lparr>working := w2\<rparr>)
                | (None, w2) \<Rightarrow> (Inr newEvent, c\<lparr>working := w2\<rparr>))))"

definition post_events ::
  "schema \<Rightarrow> credential \<Rightarrow> event_body \<Rightarrow> store \<Rightarrow> event response \<times> store" where
  "post_events db cred body s =
     (case authenticateToken cred of
        Inl r \<Rightarrow> (r, s)
      | Inr u \<Rightarrow>
          if userType u \<noteq> ''org'' then (SendStatus 403, s)
          else
            (case createEvent db u body (BEGIN s) of
               (Inr newEvent, c) \<Rightarrow> (Json 201 newEvent, COMMIT c)
             | (Inl err, c) \<Rightarrow> (JsonError 500 ''Failed to create event'', ROLLBACK c)))"

section \<open>POST /api/roles/:roleId/signup\<close>

text \<open>\<^verbatim>\<open>SELECT * FROM volunteer_roles WHERE volunteer_id = $1 AND role_id = $2\<close>\<close>

definition existingSignup :: "store \<Rightarrow> user \<Rightarrow> nat \<Rightarrow> volunteer_role list" where
  "existingSignup s u roleId =
     filter (\<lambda>vr. vr_volunteer_id vr = userId u \<and> vr_role_id vr = roleId) (volunteer_roles s)"

text \<open>
  \<^verbatim>\<open>INSERT INTO volunteer_roles (volunteer_id, role_id) VALUES ($1, $2)\<close>. The statement
  gives no \<^verbatim>\<open>attended\<close>. Modelled from the spec: the attended flag of a new assignment
  is false.
\<close>

definition insert_volunteer_role :: "schema \<Rightarrow> store \<Rightarrow> nat \<Rightarrow> nat \<Rightarrow> error + store" where
  "insert_volunteer_role db s volunteerId roleId =
     (let row = \<lparr>vr_id = fresh_id (map vr_id (volunteer_roles s)),
                 vr_volunteer_id = volunteerId,
                 vr_role_id = roleId,
                 vr_attended = False\<rparr>
      in if volunteer_roles_accepts db s row
         then Inr (s\<lparr>volunteer_roles := volunteer_roles s @ [row]\<rparr>)
         else Inl PgError)"

definition post_signup :: "schema \<Rightarrow> credential \<Rightarrow> nat \<Rightarrow> store \<Rightarrow> unit response \<times> store" where
  "post_signup db cred roleId s =
     (case authenticateToken cred of
        Inl r \<Rightarrow> (r, s)
      | Inr u \<Rightarrow>
          if userType u \<noteq> ''volunteer'' then (SendStatus 403, s)
          else if length (existingSignup s u roleId) > 0
          then (JsonError 400 ''Already signed up for this role'', s)
          else
            (case insert_volunteer_role db s (userId u) roleId of
               Inr s' \<Rightarrow> (JsonMessage 201 ''Successfully signed up for role'', s')
             | Inl err \<Rightarrow> (JsonError 500 ''Failed to sign up for role'', s)))"

text \<open>
  The handler awaits two statements on the pool, outside any transaction, so another
  request's statements can run between them. A request past the kind check is a task that
  is about to run its SELECT, about to run its INSERT, or has replied; a step runs one
  statement (and the JavaScript up to the next await).
\<close>

datatype signup_task =
    Checking user nat
  | Inserting user nat
  | Replied "unit response"

fun signup_step :: "schema \<Rightarrow> signup_task \<Rightarrow> store \<Rightarrow> signup_task \<times> store" where
  "signup_step db (Checking u roleId) s =
     (if length (existingSignup s u roleId) > 0
      then (Replied (JsonError 400 ''Already signed up for this role''), s)
      else (Inserting u roleId, s))"
| "signup_step db (Inserting u roleId) s =
     (case insert_volunteer_role db s (userId u) roleId of
        Inr s' \<Rightarrow> (Replied (JsonMessage 201 ''Successfully signed up for role''), s')
      | Inl err \<Rightarrow> (Replied (JsonError 500 ''Failed to sign up for role''), s))"
| "signup_step db (Replied r) s = (Replied r, s)"

text \<open>A schedule names, step by step, the request whose next statement the store runs.\<close>

fun run_schedule ::
  "schema \<Rightarrow> nat list \<Rightarrow> signup_task list \<Rightarrow> store \<Rightarrow> signup_task list \<times> store" where
  "run_schedule db [] ts s = (ts, s)"
| "run_schedule db (i # sched) ts s =
     (if i < length ts
      then (case signup_step db (ts ! i) s of
              (t', s') \<Rightarrow> run_schedule db sched (ts[i := t']) s')
      else run_schedule db sched ts s)"

section \<open>GET /api/volunteer/profile\<close>

text \<open>
  Both queries join the same three tables and differ in the comparison with \<^verbatim>\<open>NOW()\<close>,
  the direction of the ordering and the columns they select.
  \<^verbatim>\<open>FROM events e JOIN roles r ON r.event_id = e.id
    JOIN volunteer_roles vr ON vr.role_id = r.id WHERE vr.volunteer_id = $1\<close>
\<close>

definition profile_join :: "store \<Rightarrow> nat \<Rightarrow> (event \<times> role \<times> volunteer_role) list" where
  "profile_join s volunteerId =
     [(e, r, vr). e \<leftarrow> events s, r \<leftarrow> roles s, r_event_id r = e_id e,
                  vr \<leftarrow> volunteer_roles s, vr_role_id vr = r_id r,
                  vr_volunteer_id vr = volunteerId]"

definition joined_date :: "event \<times> role \<times> volunteer_role \<Rightarrow> int" where
  "joined_date x = e_date (fst x)"

text \<open>\<^verbatim>\<open>SELECT e.*, r.name as role_name, vr.role_id, vr.attended\<close>\<close>

record upcoming_row =
  u_event :: event
  u_role_name :: string
  u_role_id :: nat
  u_attended :: bool

text \<open>\<^verbatim>\<open>SELECT e.*, r.name as role_name, vr.attended\<close>\<close>

record past_row =
  p_event :: event
  p_role_name :: string
  p_attended :: bool

definition select_upcoming :: "event \<times> role \<times> volunteer_role \<Rightarrow> upcoming_row" where
  "select_upcoming x =
     (case x of (e, r, vr) \<Rightarrow>
        \<lparr>u_event = e, u_role_name = r_name r, u_role_id = vr_role_id vr,
         u_attended = vr_attended vr\<rparr>)"

definition select_past :: "event \<times> role \<times> volunteer_role \<Rightarrow> past_row" where
  "select_past x =
     (case x of (e, r, vr) \<Rightarrow>
        \<lparr>p_event = e, p_role_name = r_name r, p_attended = vr_attended vr\<rparr>)"

text \<open>
  \<^verbatim>\<open>WHERE ... AND e.date > NOW() ORDER BY e.date ASC\<close>, with the instant the store's
  clock shows when the query runs. SQL leaves the order of rows with equal dates open; the
  model keeps them in join order.
\<close>

definition upcomingEvents :: "store \<Rightarrow> int \<Rightarrow> nat \<Rightarrow> upcoming_row list" where
  "upcomingEvents s now volunteerId =
     map select_upcoming
       (sort_key joined_date (filter (\<lambda>x. joined_date x > now) (profile_join s volunteerId)))"

text \<open>\<^verbatim>\<open>WHERE ... AND e.date <= NOW() ORDER BY e.date DESC\<close>\<close>

definition pastEvents :: "store \<Rightarrow> int \<Rightarrow> nat \<Rightarrow> past_row list" where
  "pastEvents s now volunteerId =
     map select_past
       (rev (sort_key joined_date
          (filter (\<lambda>x. joined_date x \<le> now) (profile_join s volunteerId))))"

record stats =
  totalEvents :: nat
  totalHours :: nat

record profile =
  upcoming :: "upcoming_row list"
  past :: "past_row list"
  stats :: stats

text \<open>
  The handler runs the two queries one after the other, and each reads the clock itself:
  \<open>now1\<close> is the instant of the first query, \<open>now2\<close> that of the second.
\<close>

definition get_volunteer_profile ::
  "credential \<Rightarrow> int \<Rightarrow> int \<Rightarrow> store \<Rightarrow> profile response \<times> store" where
  "get_volunteer_profile cred now1 now2 s =
     (case authenticateToken cred of
        Inl r \<Rightarrow> (r, s)
      | Inr u \<Rightarrow>
          if userType u \<noteq> ''volunteer'' then (SendStatus 403, s)
          else
            (let upcomingRows = upcomingEvents s now1 (userId u);
                 pastRows = pastEvents s now2 (userId u);
                 totalEventsAttended = length (filter p_attended pastRows);
                 hours = totalEventsAttended * 3
             in (Json 200 \<lparr>upcoming = upcomingRows, past = pastRows,
                           stats = \<lparr>totalEvents = totalEventsAttended, totalHours = hours\<rparr>\<rparr>,
                 s)))"

section \<open>GET /api/events/:eventId/volunteers\<close>

text \<open>\<^verbatim>\<open>SELECT organizer_id FROM events WHERE id = $1\<close>\<close>

definition eventCheck :: "store \<Rightarrow> nat \<Rightarrow> nat list" where
  "eventCheck s eventId = [e_organizer_id e. e \<leftarrow> events s, e_id e = eventId]"

text \<open>\<^verbatim>\<open>SELECT v.id, v.name, v.email, r.name as role_name, vr.attended, vr.id as record_id\<close>\<close>

record roster_row =
  ros_id :: nat
  ros_name :: string
  ros_email :: string
  ros_role_name :: string
  ros_attended :: bool
  ros_record_id :: nat

text \<open>
  \<^verbatim>\<open>FROM volunteers v JOIN volunteer_roles vr ON v.id = vr.volunteer_id
    JOIN roles r ON vr.role_id = r.id WHERE r.event_id = $1 ORDER BY r.name, v.name\<close>
\<close>

definition event_volunteers :: "store \<Rightarrow> nat \<Rightarrow> roster_row list" where
  "event_volunteers s eventId =
     sort_key (\<lambda>row. (ros_role_name row, ros_name row))
       [\<lparr>ros_id = v_id v, ros_name = v_name v, ros_email = v_email v,
         ros_role_name = r_name r, ros_attended = vr_attended vr, ros_record_id = vr_id vr\<rparr>.
          v \<leftarrow> volunteers s, vr \<leftarrow> volunteer_roles s, v_id v = vr_volunteer_id vr,
          r \<leftarrow> roles s, vr_role_id vr = r_id r, r_event_id r = eventId]"

definition get_event_volunteers ::
  "credential \<Rightarrow> nat \<Rightarrow> store \<Rightarrow> roster_row list response \<times> store" where
  "get_event_volunteers cred eventId s =
     (case authenticateToken cred of
        Inl r \<Rightarrow> (r, s)
      | Inr u \<Rightarrow>
          (case eventCheck s eventId of
             [] \<Rightarrow> (SendStatus 403, s)
           | organizer # others \<Rightarrow>
               if organizer \<noteq> userId u then (SendStatus 403, s)
               else (Json 200 (event_volunteers s eventId), s)))"

section \<open>PATCH /api/attendance/:recordId\<close>

text \<open>
  \<^verbatim>\<open>SELECT e.organizer_id FROM volunteer_roles vr JOIN roles r ON vr.role_id = r.id
    JOIN events e ON r.event_id = e.id WHERE vr.id = $1\<close>
\<close>

definition recordCheck :: "store \<Rightarrow> nat \<Rightarrow> nat list" where
  "recordCheck s recordId =
     [e_organizer_id e. vr \<leftarrow> volunteer_roles s, r \<leftarrow> roles s, vr_role_id vr = r_id r,
                        e \<leftarrow> events s, r_event_id r = e_id e, vr_id vr = recordId]"

text \<open>\<^verbatim>\<open>UPDATE volunteer_roles SET attended = $1 WHERE id = $2\<close>\<close>

definition update_attended :: "store \<Rightarrow> bool \<Rightarrow> nat \<Rightarrow> store" where
  "update_attended s attended recordId =
     s\<lparr>volunteer_roles :=
         map (\<lambda>vr. if vr_id vr = recordId then vr\<lparr>vr_attended := attended\<rparr> else vr)
           (volunteer_roles s)\<rparr>"

definition patch_attendance ::
  "credential \<Rightarrow> nat \<Rightarrow> bool \<Rightarrow> store \<Rightarrow> unit response \<times> store" where
  "patch_attendance cred recordId attended s =
     (case authenticateToken cred of
        Inl r \<Rightarrow> (r, s)
      | Inr u \<Rightarrow>
          (case recordCheck s recordId of
             [] \<Rightarrow> (SendStatus 403, s)
           | organizer # others \<Rightarrow>
               if organizer \<noteq> userId u then (SendStatus 403, s)
               else (JsonMessage 200 ''Attendance updated successfully'',
                     update_attended s attended recordId)))"

section \<open>Values for stating and instantiating the theorems\<close>

text \<open>The request element a stored role row carries.\<close>

definition role_values :: "role \<Rightarrow> role_input option" where
  "role_values r =
     Some \<lparr>name = r_name r, description = r_description r,
           requiredVolunteers = r_required_volunteers r\<rparr>"

text \<open>
  Two table declarations the handlers could run against: one that constrains nothing, and
  one with a non-negative headcount, a foreign key from \<^verbatim>\<open>volunteer_roles.role_id\<close> to
  \<^verbatim>\<open>roles.id\<close> and a uniqueness constraint on \<^verbatim>\<open>(volunteer_id, role_id)\<close>.
\<close>

definition no_constraints :: schema where
  "no_constraints =
     \<lparr>events_accepts = (\<lambda>s row. True),
      roles_accepts = (\<lambda>s row. True),
      volunteer_roles_accepts = (\<lambda>s row. True)\<rparr>"

definition declared_constraints :: schema where
  "declared_constraints =
     \<lparr>events_accepts = (\<lambda>s row. True),
      roles_accepts = (\<lambda>s row. 0 \<le> r_required_volunteers row),
      volunteer_roles_accepts = (\<lambda>s row.
         vr_role_id row \<in> r_id ` set (roles s) \<and>
         (vr_volunteer_id row, vr_role_id row) \<notin>
            (\<lambda>x. (vr_volunteer_id x, vr_role_id x)) ` set (volunteer_roles s))\<rparr>"

text \<open>
  A small store: organization 1 runs event 1 (at instant 100) with the role ``Setup'';
  volunteer 1 has claimed it (record 1); volunteer 2 has claimed nothing.
\<close>

definition demo_store :: store where
  "demo_store =
     \<lparr>events = [\<lparr>e_id = 1, e_organizer_id = 1, e_title = ''Cleanup'', e_description = ''Park'',
                 e_date = 100, e_location = ''Riverside''\<rparr>],
      roles = [\<lparr>r_id = 1, r_event_id = 1, r_name = ''Setup'', r_description = ''Tables'',
                r_required_volunteers = 2\<rparr>],
      volunteer_roles = [\<lparr>vr_id = 1, vr_volunteer_id = 1, vr_role_id = 1, vr_attended = False\<rparr>],
      volunteers = [\<lparr>v_id = 1, v_name = ''Ann'', v_email = ''ann@example.org''\<rparr>,
                    \<lparr>v_id = 2, v_name = ''Bob'', v_email = ''bob@example.org''\<rparr>]\<rparr>"

text \<open>A creation request with two roles, the second with a negative headcount.\<close>

definition demo_body :: event_body where
  "demo_body =
     \<lparr>req_title = ''Food drive'', req_description = ''Sorting'', req_date = 300,
      req_location = ''Hall'',
      req_roles = Some [Some \<lparr>name = ''Sorter'', description = ''Boxes'', requiredVolunteers = 2\<rparr>,
                        Some \<lparr>name = ''Driver'', description = ''Van'', requiredVolunteers = - 1\<rparr>]\<rparr>"

text \<open>The rows the request \<open>demo_body\<close> adds to \<open>demo_store\<close> when the store takes them all.\<close>

definition demo_event :: event where
  "demo_event =
     \<lparr>e_id = 2, e_organizer_id = 1, e_title = ''Food drive'', e_description = ''Sorting'',
      e_date = 300, e_location = ''Hall''\<rparr>"

definition demo_roles :: "role list" where
  "demo_roles =
     [\<lparr>r_id = 2, r_event_id = 2, r_name = ''Sorter'', r_description = ''Boxes'',
       r_required_volunteers = 2\<rparr>,
      \<lparr>r_id = 3, r_event_id = 2, r_name = ''Driver'', r_description = ''Van'',
       r_required_volunteers = - 1\<rparr>]"

section \<open>Generated keys are fresh\<close>

lemma fold_max_ge_init: "a \<le> fold max ids (a::nat)"
proof (induction ids arbitrary: a)
  case Nil
  then show ?case by simp
next
  case (Cons y ys)
  have "a \<le> max y a" by simp
  also have "\<dots> \<le> fold max ys (max y a)" by (rule Cons.IH)
  finally show ?case by simp
qed

lemma fold_max_ge: "x \<in> set ids \<Longrightarrow> x \<le> fold max ids (a::nat)"
proof (induction ids arbitrary: a)
  case Nil
  then show ?case by simp
next
  case (Cons y ys)
  show ?case
  proof (cases "x = y")
    case True
    have "y \<le> max y a" by simp
    also have "\<dots> \<le> fold max ys (max y a)" by (rule fold_max_ge_init)
    finally show ?thesis using True by simp
  next
    case False
    then have "x \<in> set ys" using Cons.prems by simp
    then show ?thesis using Cons.IH by simp
  qed
qed

lemma fresh_id_fresh: "fresh_id ids \<notin> set ids"
  using fold_max_ge[of "fresh_id ids" ids 0] by (auto simp: fresh_id_def)

section \<open>Event creation\<close>

lemma insert_event_Inr:
  "insert_event db w organizer body = Inr (e, w1) \<Longrightarrow>
     w1 = w\<lparr>events := events w @ [e]\<rparr> \<and> e_id e \<notin> e_id ` set (events w) \<and>
     e_organizer_id e = organizer \<and> e_title e = req_title body \<and>
     e_description e = req_description body \<and> e_date e = req_date body \<and>
     e_location e = req_location body"
  using fresh_id_fresh [of "map e_id (events w)"]
  by (auto simp: insert_event_def Let_def split: if_splits)

lemma insert_role_Inr:
  "insert_role db w eid role = Inr w1 \<Longrightarrow>
     \<exists>row. w1 = w\<lparr>roles := roles w @ [row]\<rparr> \<and> role_values row = role \<and> r_event_id row = eid"
  by (auto simp: insert_role_def Let_def role_values_def split: option.splits if_splits)

text \<open>A loop that ends normally has appended one row per element, in order, and nothing else.\<close>

lemma insert_roles_None:
  "insert_roles db w eid rs = (None, w') \<Longrightarrow>
     \<exists>new. w' = w\<lparr>roles := roles w @ new\<rparr> \<and> map role_values new = rs \<and>
           (\<forall>r\<in>set new. r_event_id r = eid)"
proof (induction rs arbitrary: w)
  case Nil
  then show ?case by simp
next
  case (Cons role rest)
  from Cons.prems obtain w1 where
    one: "insert_role db w eid role = Inr w1" and more: "insert_roles db w1 eid rest = (None, w')"
    by (auto split: sum.splits)
  from insert_role_Inr [OF one] obtain row where
    row: "w1 = w\<lparr>roles := roles w @ [row]\<rparr>" "role_values row = role" "r_event_id row = eid"
    by blast
  from Cons.IH [OF more] obtain new where
    new: "w' = w1\<lparr>roles := roles w1 @ new\<rparr>" "map role_values new = rest"
      "\<forall>r\<in>set new. r_event_id r = eid"
    by blast
  have "w' = w\<lparr>roles := roles w @ (row # new)\<rparr>"
    using row(1) new(1) by simp
  then show ?case
    using row new by (intro exI [of _ "row # new"]) simp
qed

text \<open>
  If the insertion of element \<open>i\<close> throws after the first \<open>i\<close> went through, the loop throws
  that error and leaves the store with the first \<open>i\<close> rows in it.
\<close>

lemma insert_roles_fails:
  "i < length rs \<Longrightarrow> insert_roles db w eid (take i rs) = (None, wi) \<Longrightarrow>
     insert_role db wi eid (rs ! i) = Inl err \<Longrightarrow> insert_roles db w eid rs = (Some err, wi)"
proof (induction rs arbitrary: w i)
  case Nil
  then show ?case by simp
next
  case (Cons role rest)
  show ?case
  proof (cases i)
    case 0
    then show ?thesis using Cons.prems by (auto split: sum.splits)
  next
    case (Suc j)
    then show ?thesis
      using Cons.prems Cons.IH [of j] by (auto split: sum.splits)
  qed
qed

text \<open>The statements never touch the client's snapshot, and they only add rows.\<close>

lemma createEvent_snapshot: "snapshot (snd (createEvent db u body c)) = snapshot c"
  by (simp add: createEvent_def split: sum.splits option.splits prod.splits)

lemma createEvent_Inr:
  "createEvent db u body (BEGIN s) = (Inr e, c) \<Longrightarrow>
     \<exists>new. working c = s\<lparr>events := events s @ [e], roles := roles s @ new\<rparr> \<and>
           req_roles body = Some (map role_values new) \<and>
           (\<forall>r\<in>set new. r_event_id r = e_id e) \<and>
           e_id e \<notin> e_id ` set (events s)"
proof -
  assume run: "createEvent db u body (BEGIN s) = (Inr e, c)"
  then obtain w1 rs where
    ev: "insert_event db s (userId u) body = Inr (e, w1)" and
    rs: "req_roles body = Some rs" and
    ro: "insert_roles db w1 (e_id e) rs = (None, working c)"
    by (auto simp: createEvent_def BEGIN_def split: sum.splits option.splits prod.splits)
  from insert_roles_None [OF ro] obtain new where
    new: "working c = w1\<lparr>roles := roles w1 @ new\<rparr>" "map role_values new = rs"
      "\<forall>r\<in>set new. r_event_id r = e_id e"
    by blast
  from insert_event_Inr [OF ev] have
    w1: "w1 = s\<lparr>events := events s @ [e]\<rparr>" and fresh: "e_id e \<notin> e_id ` set (events s)"
    by simp_all
  have "working c = s\<lparr>events := events s @ [e], roles := roles s @ new\<rparr>"
    using new(1) w1 by simp
  then show ?thesis
    using new rs fresh by (intro exI [of _ new]) simp
qed

text \<open>What the try block returns when the event and every role go in, and when a role throws.\<close>

lemma createEvent_all:
  "insert_event db s (userId u) body = Inr (e, w) \<Longrightarrow> req_roles body = Some rs \<Longrightarrow>
   insert_roles db w (e_id e) rs = (None, w') \<Longrightarrow>
     createEvent db u body (BEGIN s) = (Inr e, \<lparr>snapshot = s, working = w'\<rparr>)"
  by (simp add: createEvent_def BEGIN_def)

lemma createEvent_throws:
  "insert_event db s (userId u) body = Inr (e, w) \<Longrightarrow> req_roles body = Some rs \<Longrightarrow>
   insert_roles db w (e_id e) rs = (Some err, wi) \<Longrightarrow>
     createEvent db u body (BEGIN s) = (Inl err, \<lparr>snapshot = s, working = wi\<rparr>)"
  by (simp add: createEvent_def BEGIN_def)

text \<open>The handler's answer and store, from what the try block returns.\<close>

lemma post_events_Token:
  "userType u = ''org'' \<Longrightarrow>
     post_events db (Token u) body s =
       (case createEvent db u body (BEGIN s) of
          (Inr e, c) \<Rightarrow> (Json 201 e, working c)
        | (Inl err, c) \<Rightarrow> (JsonError 500 ''Failed to create event'', s))"
proof -
  assume k: "userType u = ''org''"
  have "snapshot (snd (createEvent db u body (BEGIN s))) = s"
    by (simp add: createEvent_snapshot BEGIN_def)
  then show ?thesis
    using k
    by (cases "createEvent db u body (BEGIN s)")
      (auto simp: post_events_def authenticateToken_def COMMIT_def ROLLBACK_def
        split: sum.splits)
qed

text \<open>
  C2. Event creation is all-or-nothing. Whatever the request, the caller and the table
  declarations, the handler ends in one of two ways: it answers 201 with the new event, and
  the store is the old one with exactly that event row (under a key no event had) and one
  role row per requested role, in order, each carrying the requested values and the new
  event's id; or it answers something else and the store is unchanged, event and role
  tables included. When the store takes the event row and every role row, the handler ends
  the first way, with every row persisted. When the insertion of a requested role throws
  (the store rejects the row, or the element is null) after the event row and the roles
  before it went in, the transaction holds the event row at the throw, the handler answers
  500, and the store is the one it started from.
\<close>

theorem post_events_all_or_nothing:
  "post_events db cred body s = (resp, s') \<Longrightarrow>
     ((\<exists>e new. resp = Json 201 e \<and>
          s' = s\<lparr>events := events s @ [e], roles := roles s @ new\<rparr> \<and>
          req_roles body = Some (map role_values new) \<and>
          (\<forall>r\<in>set new. r_event_id r = e_id e) \<and>
          e_id e \<notin> e_id ` set (events s))
      \<or> (status resp \<noteq> 201 \<and> s' = s)) \<and>
     (\<forall>u e w rs w'.
        cred = Token u \<and> userType u = ''org'' \<and>
        insert_event db s (userId u) body = Inr (e, w) \<and> req_roles body = Some rs \<and>
        insert_roles db w (e_id e) rs = (None, w')
        \<longrightarrow> resp = Json 201 e \<and> s' = w' \<and> events s' = events s @ [e] \<and>
            length (roles s') = length (roles s) + length rs) \<and>
     (\<forall>u e w rs i wi err.
        cred = Token u \<and> userType u = ''org'' \<and>
        insert_event db s (userId u) body = Inr (e, w) \<and> req_roles body = Some rs \<and>
        i < length rs \<and> insert_roles db w (e_id e) (take i rs) = (None, wi) \<and>
        insert_role db wi (e_id e) (rs ! i) = Inl err
        \<longrightarrow> createEvent db u body (BEGIN s) = (Inl err, \<lparr>snapshot = s, working = wi\<rparr>) \<and>
            events wi = events s @ [e] \<and>
            resp = JsonError 500 ''Failed to create event'' \<and> s' = s)"
proof -
  assume run: "post_events db cred body s = (resp, s')"
  have either: "(\<exists>e new. resp = Json 201 e \<and>
          s' = s\<lparr>events := events s @ [e], roles := roles s @ new\<rparr> \<and>
          req_roles body = Some (map role_values new) \<and>
          (\<forall>r\<in>set new. r_event_id r = e_id e) \<and>
          e_id e \<notin> e_id ` set (events s))
      \<or> (status resp \<noteq> 201 \<and> s' = s)"
  proof (cases "\<exists>u. cred = Token u \<and> userType u = ''org''")
    case True
    then obtain u where u: "cred = Token u" "userType u = ''org''" by blast
    obtain res c where try_block: "createEvent db u body (BEGIN s) = (res, c)"
      by (cases "createEvent db u body (BEGIN s)") blast
    show ?thesis
    proof (cases res)
      case (Inl err)
      then have "status resp \<noteq> 201 \<and> s' = s"
        using run u try_block by (auto simp: post_events_Token)
      then show ?thesis by blast
    next
      case (Inr e)
      then have "resp = Json 201 e" "s' = working c"
        using run u try_block by (simp_all add: post_events_Token)
      then show ?thesis
        using createEvent_Inr [of db u body s e c] try_block Inr by blast
    qed
  next
    case False
    then have "status resp \<noteq> 201 \<and> s' = s"
      using run by (cases cred) (auto simp: post_events_def authenticateToken_def)
    then show ?thesis by blast
  qed
  have all: "resp = Json 201 e \<and> s' = w' \<and> events s' = events s @ [e] \<and>
            length (roles s') = length (roles s) + length rs"
    if h: "cred = Token u \<and> userType u = ''org'' \<and>
        insert_event db s (userId u) body = Inr (e, w) \<and> req_roles body = Some rs \<and>
        insert_roles db w (e_id e) rs = (None, w')" for u e w rs w'
  proof -
    have try_block: "createEvent db u body (BEGIN s) = (Inr e, \<lparr>snapshot = s, working = w'\<rparr>)"
      using h createEvent_all by blast
    then have ans: "resp = Json 201 e" "s' = w'"
      using run h by (simp_all add: post_events_Token)
    from createEvent_Inr [OF try_block] obtain new where
      "w' = s\<lparr>events := events s @ [e], roles := roles s @ new\<rparr>"
      "req_roles body = Some (map role_values new)"
      by auto
    then have "events w' = events s @ [e]" "length (roles w') = length (roles s) + length rs"
      using h by auto
    then show ?thesis using ans by simp
  qed
  have none: "createEvent db u body (BEGIN s) = (Inl err, \<lparr>snapshot = s, working = wi\<rparr>) \<and>
            events wi = events s @ [e] \<and>
            resp = JsonError 500 ''Failed to create event'' \<and> s' = s"
    if h: "cred = Token u \<and> userType u = ''org'' \<and>
        insert_event db s (userId u) body = Inr (e, w) \<and> req_roles body = Some rs \<and>
        i < length rs \<and> insert_roles db w (e_id e) (take i rs) = (None, wi) \<and>
        insert_role db wi (e_id e) (rs ! i) = Inl err" for u e w rs i wi err
  proof -
    have loop: "insert_roles db w (e_id e) rs = (Some err, wi)"
      using h insert_roles_fails by blast
    then have try_block:
      "createEvent db u body (BEGIN s) = (Inl err, \<lparr>snapshot = s, working = wi\<rparr>)"
      using h createEvent_throws by blast
    then have ans: "resp = JsonError 500 ''Failed to create event''" "s' = s"
      using run h by (simp_all add: post_events_Token)
    from h insert_roles_None [of db w "e_id e" "take i rs" wi] obtain new where
      "wi = w\<lparr>roles := roles w @ new\<rparr>"
      by blast
    moreover have "w = s\<lparr>events := events s @ [e]\<rparr>"
      using h insert_event_Inr by blast
    ultimately have "events wi = events s @ [e]" by simp
    then show ?thesis using try_block ans by simp
  qed
  show ?thesis
    using either all none by blast
qed

text \<open>
  The request \<open>demo_body\<close> of organization 1, twice. Where the store constrains nothing,
  event 2 and its two roles are persisted. Under the declarations that refuse a negative
  headcount, the event and the first role go in, the second role is refused, and nothing
  is left behind.
\<close>

theorem post_events_all_or_nothing_witness:
  "post_events no_constraints (Token \<lparr>userId = 1, userType = ''org''\<rparr>) demo_body demo_store =
     (Json 201 demo_event,
      demo_store\<lparr>events := events demo_store @ [demo_event],
                 roles := roles demo_store @ demo_roles\<rparr>) \<and>
   post_events declared_constraints (Token \<lparr>userId = 1, userType = ''org''\<rparr>) demo_body demo_store =
     (JsonError 500 ''Failed to create event'', demo_store)"
proof -
  let ?u = "\<lparr>userId = 1, userType = ''org''\<rparr>"
  let ?w = "demo_store\<lparr>events := events demo_store @ [demo_event]\<rparr>"
  let ?w' = "demo_store\<lparr>events := events demo_store @ [demo_event],
                        roles := roles demo_store @ demo_roles\<rparr>"
  let ?rs = "[Some \<lparr>name = ''Sorter'', description = ''Boxes'', requiredVolunteers = 2\<rparr>,
              Some \<lparr>name = ''Driver'', description = ''Van'', requiredVolunteers = - 1\<rparr>]"
  have rs: "req_roles demo_body = Some ?rs"
    by (simp add: demo_body_def)
  have stored: "post_events no_constraints (Token ?u) demo_body demo_store = (Json 201 demo_event, ?w')"
  proof -
    obtain resp s' where run: "post_events no_constraints (Token ?u) demo_body demo_store = (resp, s')"
      by (cases "post_events no_constraints (Token ?u) demo_body demo_store") blast
    have ev: "insert_event no_constraints demo_store (userId ?u) demo_body = Inr (demo_event, ?w)"
      by (simp add: insert_event_def no_constraints_def Let_def fresh_id_def demo_store_def
          demo_body_def demo_event_def)
    have ro: "insert_roles no_constraints ?w (e_id demo_event) ?rs = (None, ?w')"
      by (simp add: insert_role_def no_constraints_def Let_def fresh_id_def demo_store_def
          demo_event_def demo_roles_def)
    have "resp = Json 201 demo_event \<and> s' = ?w'"
      using post_events_all_or_nothing [OF run, THEN conjunct2, THEN conjunct1, rule_format,
          of ?u demo_event ?w ?rs ?w'] ev rs ro
      by simp
    then show ?thesis using run by simp
  qed
  have refused: "post_events declared_constraints (Token ?u) demo_body demo_store =
      (JsonError 500 ''Failed to create event'', demo_store)"
  proof -
    let ?wi = "?w\<lparr>roles := roles demo_store @ [hd demo_roles]\<rparr>"
    obtain resp s' where
      run: "post_events declared_constraints (Token ?u) demo_body demo_store = (resp, s')"
      by (cases "post_events declared_constraints (Token ?u) demo_body demo_store") blast
    have ev: "insert_event declared_constraints demo_store (userId ?u) demo_body =
        Inr (demo_event, ?w)"
      by (simp add: insert_event_def declared_constraints_def Let_def fresh_id_def demo_store_def
          demo_body_def demo_event_def)
    have first: "insert_roles declared_constraints ?w (e_id demo_event) (take 1 ?rs) = (None, ?wi)"
      by (simp add: insert_role_def declared_constraints_def Let_def fresh_id_def demo_store_def
          demo_event_def demo_roles_def)
    have second: "insert_role declared_constraints ?wi (e_id demo_event) (?rs ! 1) = Inl PgError"
      by (simp add: insert_role_def declared_constraints_def Let_def)
    have "resp = JsonError 500 ''Failed to create event'' \<and> s' = demo_store"
      using post_events_all_or_nothing [OF run, THEN conjunct2, THEN conjunct2, rule_format,
          of ?u demo_event ?w ?rs 1 ?wi PgError] ev rs first second
      by simp
    then show ?thesis using run by simp
  qed
  show ?thesis using stored refused by simp
qed

text \<open>
  C3, as the handler has it. The handler examines neither the length of \<^verbatim>\<open>roles\<close> nor a
  headcount. With an empty role list, if the store takes the event row, it answers 201 and
  the store gains that event row and no role row. With any role list, if the store takes
  the event row and every role row, it answers 201 and the headcounts stored are the ones
  requested, negative ones included; if the store takes the event row and then refuses a
  role row, it answers 500 and, the transaction rolled back, the store is unchanged.
\<close>

theorem post_events_no_validation:
  "userType u = ''org'' \<Longrightarrow>
     (\<forall>e w. req_roles body = Some [] \<and> insert_event db s (userId u) body = Inr (e, w) \<longrightarrow>
        post_events db (Token u) body s = (Json 201 e, s\<lparr>events := events s @ [e]\<rparr>)) \<and>
     (\<forall>e w rs w'. req_roles body = Some rs \<and> insert_event db s (userId u) body = Inr (e, w) \<and>
        insert_roles db w (e_id e) rs = (None, w') \<longrightarrow>
        post_events db (Token u) body s = (Json 201 e, w') \<and>
        map (\<lambda>r. Some (r_required_volunteers r)) (drop (length (roles s)) (roles w')) =
          map (map_option requiredVolunteers) rs) \<and>
     (\<forall>e w rs err wi. req_roles body = Some rs \<and>
        insert_event db s (userId u) body = Inr (e, w) \<and>
        insert_roles db w (e_id e) rs = (Some err, wi) \<longrightarrow>
        post_events db (Token u) body s = (JsonError 500 ''Failed to create event'', s))"
proof -
  assume k: "userType u = ''org''"
  have empty: "post_events db (Token u) body s = (Json 201 e, s\<lparr>events := events s @ [e]\<rparr>)"
    if h: "req_roles body = Some [] \<and> insert_event db s (userId u) body = Inr (e, w)" for e w
  proof -
    have "w = s\<lparr>events := events s @ [e]\<rparr>"
      using h insert_event_Inr by blast
    moreover have "createEvent db u body (BEGIN s) = (Inr e, \<lparr>snapshot = s, working = w\<rparr>)"
      using h createEvent_all [of db s u body e w "[]" w] by simp
    ultimately show ?thesis
      using k by (simp add: post_events_Token)
  qed
  have stored: "post_events db (Token u) body s = (Json 201 e, w') \<and>
        map (\<lambda>r. Some (r_required_volunteers r)) (drop (length (roles s)) (roles w')) =
          map (map_option requiredVolunteers) rs"
    if h: "req_roles body = Some rs \<and> insert_event db s (userId u) body = Inr (e, w) \<and>
        insert_roles db w (e_id e) rs = (None, w')" for e w rs w'
  proof -
    from h obtain new where new: "w' = w\<lparr>roles := roles w @ new\<rparr>" "map role_values new = rs"
      using insert_roles_None by blast
    have w: "roles w = roles s"
      using h insert_event_Inr [of db s "userId u" body e w] by simp
    have "map (\<lambda>r. Some (r_required_volunteers r)) new = map (map_option requiredVolunteers) rs"
      using new(2) by (auto simp: role_values_def)
    then have "map (\<lambda>r. Some (r_required_volunteers r)) (drop (length (roles s)) (roles w')) =
          map (map_option requiredVolunteers) rs"
      using new(1) w by simp
    moreover have "createEvent db u body (BEGIN s) = (Inr e, \<lparr>snapshot = s, working = w'\<rparr>)"
      using h createEvent_all by blast
    then have "post_events db (Token u) body s = (Json 201 e, w')"
      using k by (simp add: post_events_Token)
    ultimately show ?thesis by simp
  qed
  have refused: "post_events db (Token u) body s = (JsonError 500 ''Failed to create event'', s)"
    if h: "req_roles body = Some rs \<and> insert_event db s (userId u) body = Inr (e, w) \<and>
        insert_roles db w (e_id e) rs = (Some err, wi)" for e w rs err wi
  proof -
    have "createEvent db u body (BEGIN s) = (Inl err, \<lparr>snapshot = s, working = wi\<rparr>)"
      using h createEvent_throws by blast
    then show ?thesis
      using k by (simp add: post_events_Token)
  qed
  show ?thesis
    using empty stored refused by blast
qed

text \<open>
  Organization 1 asks for an event with no roles, and the store gains event 2; it asks for
  the roles of \<open>demo_body\<close> under the declarations that refuse a negative headcount, and
  the store is left as it was.
\<close>

theorem post_events_no_validation_witness:
  "post_events declared_constraints (Token \<lparr>userId = 1, userType = ''org''\<rparr>)
       (demo_body\<lparr>req_roles := Some []\<rparr>) demo_store =
     (Json 201 demo_event, demo_store\<lparr>events := events demo_store @ [demo_event]\<rparr>) \<and>
   post_events declared_constraints (Token \<lparr>userId = 1, userType = ''org''\<rparr>) demo_body demo_store =
     (JsonError 500 ''Failed to create event'', demo_store)"
proof -
  let ?u = "\<lparr>userId = 1, userType = ''org''\<rparr>"
  let ?w = "demo_store\<lparr>events := events demo_store @ [demo_event]\<rparr>"
  let ?wi = "?w\<lparr>roles := roles demo_store @ [hd demo_roles]\<rparr>"
  let ?rs = "[Some \<lparr>name = ''Sorter'', description = ''Boxes'', requiredVolunteers = 2\<rparr>,
              Some \<lparr>name = ''Driver'', description = ''Van'', requiredVolunteers = - 1\<rparr>]"
  let ?body = "demo_body\<lparr>req_roles := Some []\<rparr>"
  have k: "userType ?u = ''org''" by simp
  have ev0: "insert_event declared_constraints demo_store (userId ?u) ?body = Inr (demo_event, ?w)"
    by (simp add: insert_event_def declared_constraints_def Let_def fresh_id_def demo_store_def
        demo_body_def demo_event_def)
  have rs0: "req_roles ?body = Some []" by simp
  have ev: "insert_event declared_constraints demo_store (userId ?u) demo_body =
      Inr (demo_event, ?w)"
    by (simp add: insert_event_def declared_constraints_def Let_def fresh_id_def demo_store_def
        demo_body_def demo_event_def)
  have rs: "req_roles demo_body = Some ?rs"
    by (simp add: demo_body_def)
  have ro: "insert_roles declared_constraints ?w (e_id demo_event) ?rs = (Some PgError, ?wi)"
    by (simp add: insert_role_def declared_constraints_def Let_def fresh_id_def demo_store_def
        demo_event_def demo_roles_def)
  have a: "post_events declared_constraints (Token ?u) ?body demo_store = (Json 201 demo_event, ?w)"
    using post_events_no_validation [OF k, of ?body declared_constraints demo_store,
        THEN conjunct1, rule_format, of demo_event ?w] ev0 rs0
    by simp
  have b: "post_events declared_constraints (Token ?u) demo_body demo_store =
      (JsonError 500 ''Failed to create event'', demo_store)"
    using post_events_no_validation [OF k, of demo_body declared_constraints demo_store,
        THEN conjunct2, THEN conjunct2, rule_format, of ?rs demo_event ?w PgError ?wi] ev rs ro
    by simp
  show ?thesis using a b by simp
qed

text \<open>
  An empty role list creates the event, even under the declarations that constrain the
  tables; where the store constrains nothing, the request \<open>demo_body\<close> is answered 201 and
  the headcount \<open>-1\<close> is stored.
\<close>

theorem post_events_validation_counterexample:
  "req_roles (demo_body\<lparr>req_roles := Some []\<rparr>) = Some [] \<and>
   post_events declared_constraints (Token \<lparr>userId = 1, userType = ''org''\<rparr>)
       (demo_body\<lparr>req_roles := Some []\<rparr>) demo_store =
     (Json 201 \<lparr>e_id = 2, e_organizer_id = 1, e_title = ''Food drive'',
                e_description = ''Sorting'', e_date = 300, e_location = ''Hall''\<rparr>,
      demo_store\<lparr>events := events demo_store @
        [\<lparr>e_id = 2, e_organizer_id = 1, e_title = ''Food drive'',
          e_description = ''Sorting'', e_date = 300, e_location = ''Hall''\<rparr>]\<rparr>) \<and>
   status (fst (post_events no_constraints (Token \<lparr>userId = 1, userType = ''org''\<rparr>)
       demo_body demo_store)) = 201 \<and>
   map r_required_volunteers
     (roles (snd (post_events no_constraints (Token \<lparr>userId = 1, userType = ''org''\<rparr>)
       demo_body demo_store))) = [2, 2, - 1]"
  by (simp add: post_events_def authenticateToken_def BEGIN_def COMMIT_def ROLLBACK_def
      createEvent_def insert_event_def insert_role_def Let_def
      fresh_id_def no_constraints_def declared_constraints_def demo_store_def demo_body_def)

section \<open>Signing up\<close>

text \<open>Run alone, the two steps of a request are the handler.\<close>

lemma post_signup_steps:
  "userType u = ''volunteer'' \<Longrightarrow>
     run_schedule db [0, 0] [Checking u roleId] s =
       (case post_signup db (Token u) roleId s of (r, s') \<Rightarrow> ([Replied r], s'))"
  by (simp add: post_signup_def authenticateToken_def split: sum.splits)

text \<open>
  C5, as the handler has it. The handler never looks the role up. For a volunteer and a
  roleId that is the id of no role, it never answers 404: if the pair already has a row it
  answers 400; otherwise it hands the new row to the store, answers 201 with the row
  appended when the store takes it, and answers 500 with the store unchanged when the
  store refuses it.
\<close>

theorem signup_missing_role:
  "userType u = ''volunteer'' \<Longrightarrow> roleId \<notin> r_id ` set (roles s) \<Longrightarrow>
     status (fst (post_signup db (Token u) roleId s)) \<noteq> 404 \<and>
     (existingSignup s u roleId \<noteq> [] \<longrightarrow>
        post_signup db (Token u) roleId s =
          (JsonError 400 ''Already signed up for this role'', s)) \<and>
     (existingSignup s u roleId = [] \<longrightarrow>
        (let row = \<lparr>vr_id = fresh_id (map vr_id (volunteer_roles s)),
                    vr_volunteer_id = userId u, vr_role_id = roleId, vr_attended = False\<rparr>
         in post_signup db (Token u) roleId s =
              (if volunteer_roles_accepts db s row
               then (JsonMessage 201 ''Successfully signed up for role'',
                     s\<lparr>volunteer_roles := volunteer_roles s @ [row]\<rparr>)
               else (JsonError 500 ''Failed to sign up for role'', s))))"
  by (simp add: post_signup_def authenticateToken_def insert_volunteer_role_def Let_def)

text \<open>Volunteer 2 and role 7, which does not exist, under the declarations with the foreign key.\<close>

theorem signup_missing_role_witness:
  "7 \<notin> r_id ` set (roles demo_store) \<and>
   post_signup declared_constraints (Token \<lparr>userId = 2, userType = ''volunteer''\<rparr>) 7 demo_store =
     (JsonError 500 ''Failed to sign up for role'', demo_store)"
proof -
  let ?u = "\<lparr>userId = 2, userType = ''volunteer''\<rparr>"
  have k: "userType ?u = ''volunteer''" by simp
  have h: "7 \<notin> r_id ` set (roles demo_store)" by (simp add: demo_store_def)
  have e: "existingSignup demo_store ?u 7 = []"
    by (simp add: existingSignup_def demo_store_def)
  have r: "\<not> volunteer_roles_accepts declared_constraints demo_store
      \<lparr>vr_id = fresh_id (map vr_id (volunteer_roles demo_store)),
                    vr_volunteer_id = userId ?u, vr_role_id = 7, vr_attended = False\<rparr>"
    by (simp add: declared_constraints_def demo_store_def)
  show ?thesis
    using signup_missing_role [OF k h, of declared_constraints, THEN conjunct2, THEN conjunct2] e r h
    by (simp add: Let_def)
qed

text \<open>
  The same request where the store constrains nothing creates the row and is answered 201;
  under the foreign key it is answered 500. Neither answer is 404.
\<close>

theorem signup_missing_role_counterexample:
  "7 \<notin> r_id ` set (roles demo_store) \<and>
   post_signup no_constraints (Token \<lparr>userId = 2, userType = ''volunteer''\<rparr>) 7 demo_store =
     (JsonMessage 201 ''Successfully signed up for role'',
      demo_store\<lparr>volunteer_roles := volunteer_roles demo_store @
         [\<lparr>vr_id = 2, vr_volunteer_id = 2, vr_role_id = 7, vr_attended = False\<rparr>]\<rparr>) \<and>
   post_signup declared_constraints (Token \<lparr>userId = 2, userType = ''volunteer''\<rparr>) 7 demo_store =
     (JsonError 500 ''Failed to sign up for role'', demo_store)"
  by (simp add: post_signup_def authenticateToken_def existingSignup_def
      insert_volunteer_role_def Let_def fresh_id_def no_constraints_def declared_constraints_def
      demo_store_def)

text \<open>
  C1 fails on the handler. Two requests of one volunteer for one role the volunteer has not
  claimed, with both SELECTs run before either INSERT: whatever the table declarations,
  neither request is answered 400; either both are answered 201 and the store holds two
  rows for the pair, or one of them is answered 500.
\<close>

theorem signup_race:
  "existingSignup s u roleId = [] \<Longrightarrow>
   run_schedule db [0, 1, 0, 1] [Checking u roleId, Checking u roleId] s = (ts, s') \<Longrightarrow>
     Replied (JsonError 400 ''Already signed up for this role'') \<notin> set ts \<and>
     (ts = [Replied (JsonMessage 201 ''Successfully signed up for role''),
            Replied (JsonMessage 201 ''Successfully signed up for role'')] \<and>
      length (existingSignup s' u roleId) = 2
      \<or> Replied (JsonError 500 ''Failed to sign up for role'') \<in> set ts)"
  by (auto simp: insert_volunteer_role_def existingSignup_def Let_def split: if_splits)

text \<open>
  Volunteer 2 and role 1 in \<open>demo_store\<close>: two rows where the store constrains nothing, and
  the answers 201 and 500 under the uniqueness constraint.
\<close>

theorem signup_race_witness:
  "existingSignup demo_store \<lparr>userId = 2, userType = ''volunteer''\<rparr> 1 = [] \<and>
   fst (run_schedule no_constraints [0, 1, 0, 1]
      [Checking \<lparr>userId = 2, userType = ''volunteer''\<rparr> 1,
       Checking \<lparr>userId = 2, userType = ''volunteer''\<rparr> 1] demo_store) =
     [Replied (JsonMessage 201 ''Successfully signed up for role''),
      Replied (JsonMessage 201 ''Successfully signed up for role'')] \<and>
   length (existingSignup
     (snd (run_schedule no_constraints [0, 1, 0, 1]
      [Checking \<lparr>userId = 2, userType = ''volunteer''\<rparr> 1,
       Checking \<lparr>userId = 2, userType = ''volunteer''\<rparr> 1] demo_store))
     \<lparr>userId = 2, userType = ''volunteer''\<rparr> 1) = 2 \<and>
   fst (run_schedule declared_constraints [0, 1, 0, 1]
      [Checking \<lparr>userId = 2, userType = ''volunteer''\<rparr> 1,
       Checking \<lparr>userId = 2, userType = ''volunteer''\<rparr> 1] demo_store) =
     [Replied (JsonMessage 201 ''Successfully signed up for role''),
      Replied (JsonError 500 ''Failed to sign up for role'')]"
proof -
  let ?u = "\<lparr>userId = 2, userType = ''volunteer''\<rparr>"
  have h: "existingSignup demo_store ?u 1 = []"
    by (simp add: existingSignup_def demo_store_def)
  obtain ts s' where run:
    "run_schedule no_constraints [0, 1, 0, 1] [Checking ?u 1, Checking ?u 1] demo_store = (ts, s')"
    by (cases "run_schedule no_constraints [0, 1, 0, 1] [Checking ?u 1, Checking ?u 1] demo_store")
      blast
  have no500: "Replied (JsonError 500 ''Failed to sign up for role'') \<notin> set ts"
    using run h by (auto simp: insert_volunteer_role_def no_constraints_def Let_def)
  have strict: "fst (run_schedule declared_constraints [0, 1, 0, 1]
      [Checking ?u 1, Checking ?u 1] demo_store) =
     [Replied (JsonMessage 201 ''Successfully signed up for role''),
      Replied (JsonError 500 ''Failed to sign up for role'')]"
    using h by (simp add: insert_volunteer_role_def declared_constraints_def Let_def
        demo_store_def)
  show ?thesis
    using signup_race [OF h run] no500 h run strict by simp
qed

section \<open>The volunteer's profile\<close>

lemma select_upcoming_date: "e_date (u_event (select_upcoming x)) = joined_date x"
  by (cases x) (simp add: select_upcoming_def joined_date_def)

lemma select_past_date: "e_date (p_event (select_past x)) = joined_date x"
  by (cases x) (simp add: select_past_def joined_date_def)

lemma upcomingEvents_mset:
  "mset (upcomingEvents s now v) =
     mset (map select_upcoming (filter (\<lambda>x. now < joined_date x) (profile_join s v)))"
  by (simp add: upcomingEvents_def)

lemma upcomingEvents_sorted:
  "sorted (map (\<lambda>row. e_date (u_event row)) (upcomingEvents s now v))"
  by (simp add: upcomingEvents_def comp_def select_upcoming_date)

lemma pastEvents_mset:
  "mset (pastEvents s now v) =
     mset (map select_past (filter (\<lambda>x. joined_date x \<le> now) (profile_join s v)))"
  by (simp add: pastEvents_def)

lemma pastEvents_sorted:
  "sorted (rev (map (\<lambda>row. e_date (p_event row)) (pastEvents s now v)))"
  by (simp add: pastEvents_def comp_def select_past_date rev_map [symmetric])

lemma upcomingEvents_set:
  "set (upcomingEvents s now v) =
     select_upcoming ` {x \<in> set (profile_join s v). now < joined_date x}"
  by (simp add: upcomingEvents_def)

lemma pastEvents_set:
  "set (pastEvents s now v) =
     select_past ` {x \<in> set (profile_join s v). joined_date x \<le> now}"
  by (simp add: pastEvents_def)

text \<open>
  Each query compares with the instant it reads itself. When the second reading is not
  before the first, the two lists together hold every joined row once, and a second time
  the rows dated after the first reading and not after the second.
\<close>

lemma length_filter_window:
  "now1 \<le> now2 \<Longrightarrow>
     length (filter (\<lambda>x. now1 < joined_date x) xs) +
     length (filter (\<lambda>x. joined_date x \<le> now2) xs) =
     length xs + length (filter (\<lambda>x. now1 < joined_date x \<and> joined_date x \<le> now2) xs)"
  by (induction xs) auto

lemma profile_lengths:
  "now1 \<le> now2 \<Longrightarrow>
     length (upcomingEvents s now1 v) + length (pastEvents s now2 v) =
     length (profile_join s v) +
     length (filter (\<lambda>x. now1 < joined_date x \<and> joined_date x \<le> now2) (profile_join s v))"
  using length_filter_window [of now1 now2 "profile_join s v"]
  by (simp add: upcomingEvents_def pastEvents_def)

text \<open>
  What holds of the two lists, with \<open>now1\<close> the instant the first query reads and \<open>now2\<close>
  the instant the second reads: \<open>upcoming\<close> holds exactly the joined rows (event, role,
  assignment of this volunteer) whose event date is strictly after \<open>now1\<close>, in ascending
  order of date; \<open>past\<close> holds exactly those whose date is at most \<open>now2\<close>, in descending
  order of date; no row of \<open>upcoming\<close> has the date \<open>now1\<close>, and every joined row with the
  date \<open>now2\<close> is in \<open>past\<close>. When \<open>now1 \<le> now2\<close>, every joined row is in a list, and the
  rows in both are those dated after \<open>now1\<close> and not after \<open>now2\<close>: when the two readings
  are the same instant the lists partition the joined rows.
\<close>

lemma profile_lists:
  "userType u = ''volunteer'' \<Longrightarrow>
     \<exists>p. get_volunteer_profile (Token u) now1 now2 s = (Json 200 p, s) \<and>
       mset (upcoming p) =
         mset (map select_upcoming
                 (filter (\<lambda>x. now1 < joined_date x) (profile_join s (userId u)))) \<and>
       sorted (map (\<lambda>row. e_date (u_event row)) (upcoming p)) \<and>
       mset (past p) =
         mset (map select_past
                 (filter (\<lambda>x. joined_date x \<le> now2) (profile_join s (userId u)))) \<and>
       sorted (rev (map (\<lambda>row. e_date (p_event row)) (past p))) \<and>
       (\<forall>row\<in>set (upcoming p). e_date (u_event row) \<noteq> now1) \<and>
       (\<forall>x\<in>set (profile_join s (userId u)).
          joined_date x = now2 \<longrightarrow> select_past x \<in> set (past p)) \<and>
       (now1 \<le> now2 \<longrightarrow>
          length (upcoming p) + length (past p) =
            length (profile_join s (userId u)) +
            length (filter (\<lambda>x. now1 < joined_date x \<and> joined_date x \<le> now2)
                      (profile_join s (userId u))))"
proof -
  assume kind: "userType u = ''volunteer''"
  let ?p = "\<lparr>upcoming = upcomingEvents s now1 (userId u), past = pastEvents s now2 (userId u),
             stats = \<lparr>totalEvents = length (filter p_attended (pastEvents s now2 (userId u))),
                      totalHours = length (filter p_attended (pastEvents s now2 (userId u))) * 3\<rparr>\<rparr>"
  have run: "get_volunteer_profile (Token u) now1 now2 s = (Json 200 ?p, s)"
    using kind by (simp add: get_volunteer_profile_def authenticateToken_def Let_def)
  have up: "\<forall>row\<in>set (upcomingEvents s now1 (userId u)). e_date (u_event row) \<noteq> now1"
    by (auto simp: upcomingEvents_set select_upcoming_date)
  have pa: "\<forall>x\<in>set (profile_join s (userId u)).
          joined_date x = now2 \<longrightarrow> select_past x \<in> set (pastEvents s now2 (userId u))"
    by (auto simp: pastEvents_set)
  show ?thesis
    apply (rule exI [of _ ?p])
    using run up pa
    by (simp add: upcomingEvents_mset upcomingEvents_sorted pastEvents_mset pastEvents_sorted
        profile_lengths)
qed

text \<open>
  Volunteer 1 asks, and both queries read instant 100, the very date of event 1: the event
  is past, not upcoming.
\<close>

lemma profile_lists_same_instant:
  "\<exists>p. get_volunteer_profile (Token \<lparr>userId = 1, userType = ''volunteer''\<rparr>) 100 100 demo_store =
          (Json 200 p, demo_store) \<and>
       upcoming p = [] \<and>
       past p = [\<lparr>p_event = hd (events demo_store), p_role_name = ''Setup'', p_attended = False\<rparr>]"
proof -
  let ?u = "\<lparr>userId = 1, userType = ''volunteer''\<rparr>"
  have kind: "userType ?u = ''volunteer''" by simp
  from profile_lists [OF kind, of 100 100 demo_store] obtain p where
    p: "get_volunteer_profile (Token ?u) 100 100 demo_store = (Json 200 p, demo_store)"
       "mset (upcoming p) =
         mset (map select_upcoming
                 (filter (\<lambda>x. 100 < joined_date x) (profile_join demo_store (userId ?u))))"
       "mset (past p) =
         mset (map select_past
                 (filter (\<lambda>x. joined_date x \<le> 100) (profile_join demo_store (userId ?u))))"
    by blast
  have "mset (upcoming p) = {#}"
    using p(2) by (simp add: profile_join_def joined_date_def demo_store_def)
  moreover have "mset (past p) =
      {#\<lparr>p_event = hd (events demo_store), p_role_name = ''Setup'', p_attended = False\<rparr>#}"
    using p(3) by (simp add: profile_join_def joined_date_def select_past_def demo_store_def)
  ultimately show ?thesis
    using p(1) by (intro exI [of _ p]) (simp add: mset_single_iff_right)
qed

text \<open>
  C7 fails on the handler. The two queries are separate statements and each reads the clock
  itself. When the first reads an instant before an assigned event's date and the second
  an instant not before it, that event's row is in \<open>upcoming\<close> and in \<open>past\<close>: the lists do
  not partition the volunteer's events, and an event dated at the instant of the second
  query is listed as upcoming.
\<close>

theorem profile_race:
  "userType u = ''volunteer'' \<Longrightarrow> x \<in> set (profile_join s (userId u)) \<Longrightarrow>
   now1 < joined_date x \<Longrightarrow> joined_date x \<le> now2 \<Longrightarrow>
     \<exists>p. get_volunteer_profile (Token u) now1 now2 s = (Json 200 p, s) \<and>
         select_upcoming x \<in> set (upcoming p) \<and> select_past x \<in> set (past p)"
  by (simp add: get_volunteer_profile_def authenticateToken_def Let_def upcomingEvents_set
      pastEvents_set)

text \<open>
  Volunteer 1 asks; the first query reads instant 99 and the second instant 100, the date
  of event 1. The event is in both lists.
\<close>

theorem profile_race_witness:
  "e_date (hd (events demo_store)) = 100 \<and>
   get_volunteer_profile (Token \<lparr>userId = 1, userType = ''volunteer''\<rparr>) 99 100 demo_store =
     (Json 200
        \<lparr>upcoming = [\<lparr>u_event = hd (events demo_store), u_role_name = ''Setup'', u_role_id = 1,
                      u_attended = False\<rparr>],
         past = [\<lparr>p_event = hd (events demo_store), p_role_name = ''Setup'',
                  p_attended = False\<rparr>],
         stats = \<lparr>totalEvents = 0, totalHours = 0\<rparr>\<rparr>,
      demo_store)"
proof -
  let ?u = "\<lparr>userId = 1, userType = ''volunteer''\<rparr>"
  let ?x = "(hd (events demo_store), hd (roles demo_store), hd (volunteer_roles demo_store))"
  have kind: "userType ?u = ''volunteer''" by simp
  have mem: "?x \<in> set (profile_join demo_store (userId ?u))"
    by (simp add: profile_join_def demo_store_def)
  have after: "99 < joined_date ?x" and upto: "joined_date ?x \<le> 100"
    by (simp_all add: joined_date_def demo_store_def)
  from profile_race [OF kind mem after upto] obtain p where
    p: "get_volunteer_profile (Token ?u) 99 100 demo_store = (Json 200 p, demo_store)"
    by blast
  have "p = \<lparr>upcoming = [\<lparr>u_event = hd (events demo_store), u_role_name = ''Setup'',
                          u_role_id = 1, u_attended = False\<rparr>],
         past = [\<lparr>p_event = hd (events demo_store), p_role_name = ''Setup'',
                  p_attended = False\<rparr>],
         stats = \<lparr>totalEvents = 0, totalHours = 0\<rparr>\<rparr>"
    using p
    by (simp add: get_volunteer_profile_def authenticateToken_def Let_def upcomingEvents_def
      pastEvents_def profile_join_def joined_date_def select_upcoming_def select_past_def
      demo_store_def)
  moreover have "e_date (hd (events demo_store)) = 100"
    by (simp add: demo_store_def)
  ultimately show ?thesis using p by simp
qed

text \<open>
  C8. For every volunteer, every store and whatever instants the two queries read,
  \<open>stats.totalEvents\<close> is the number of rows of \<open>past\<close> whose attended flag is set, and
  \<open>stats.totalHours\<close> is three times \<open>stats.totalEvents\<close>.
\<close>

theorem profile_stats:
  "userType u = ''volunteer'' \<Longrightarrow>
     \<exists>p. get_volunteer_profile (Token u) now1 now2 s = (Json 200 p, s) \<and>
         totalEvents (stats p) = length (filter p_attended (past p)) \<and>
         totalHours (stats p) = totalEvents (stats p) * 3"
  by (simp add: get_volunteer_profile_def authenticateToken_def Let_def)

text \<open>
  After organization 1 marked record 1 attended and the event's date has passed, volunteer 1
  has one attended event and three hours.
\<close>

theorem profile_stats_witness:
  "\<exists>p. get_volunteer_profile (Token \<lparr>userId = 1, userType = ''volunteer''\<rparr>) 200 200
          (update_attended demo_store True 1) = (Json 200 p, update_attended demo_store True 1) \<and>
       length (past p) = 1 \<and> totalEvents (stats p) = 1 \<and> totalHours (stats p) = 3"
proof -
  let ?u = "\<lparr>userId = 1, userType = ''volunteer''\<rparr>"
  let ?s = "update_attended demo_store True 1"
  have kind: "userType ?u = ''volunteer''" by simp
  from profile_stats [OF kind, of 200 200 ?s] obtain p where
    p: "get_volunteer_profile (Token ?u) 200 200 ?s = (Json 200 p, ?s)"
       "totalEvents (stats p) = length (filter p_attended (past p))"
       "totalHours (stats p) = totalEvents (stats p) * 3"
    by blast
  have "past p = pastEvents ?s 200 1"
    using p(1) by (auto simp: get_volunteer_profile_def authenticateToken_def Let_def)
  also have "\<dots> = [\<lparr>p_event = hd (events demo_store), p_role_name = ''Setup'', p_attended = True\<rparr>]"
    by (simp add: pastEvents_def profile_join_def update_attended_def demo_store_def
        joined_date_def select_past_def)
  finally have "past p = [\<lparr>p_event = hd (events demo_store), p_role_name = ''Setup'', p_attended = True\<rparr>]" .
  then show ?thesis using p by (intro exI [of _ p]) simp
qed

section \<open>Ownership and attendance\<close>

lemma recordCheck_mem:
  "(x \<in> set (recordCheck s recordId)) =
     (\<exists>vr\<in>set (volunteer_roles s). \<exists>r\<in>set (roles s). \<exists>e\<in>set (events s).
        vr_id vr = recordId \<and> vr_role_id vr = r_id r \<and> r_event_id r = e_id e \<and>
        e_organizer_id e = x)"
  by (auto simp: recordCheck_def)

lemma eventCheck_mem:
  "(x \<in> set (eventCheck s eventId)) =
     (\<exists>e\<in>set (events s). e_id e = eventId \<and> e_organizer_id e = x)"
  by (auto simp: eventCheck_def)

text \<open>The update writes the attended column only, so the ownership query reads the same rows.\<close>

lemma recordCheck_update_attended:
  "recordCheck (update_attended s attended r') recordId = recordCheck s recordId"
proof -
  define g where
    "g = (\<lambda>vr::volunteer_role. if vr_id vr = r' then vr\<lparr>vr_attended := attended\<rparr> else vr)"
  have keys: "vr_id (g vr) = vr_id vr" "vr_role_id (g vr) = vr_role_id vr" for vr
    by (simp_all add: g_def)
  have upd: "update_attended s attended r' = s\<lparr>volunteer_roles := map g (volunteer_roles s)\<rparr>"
    by (simp add: update_attended_def g_def)
  show ?thesis
    unfolding upd recordCheck_def by (simp add: comp_def keys cong: if_cong)
qed

lemma update_attended_twice:
  "update_attended (update_attended s attended recordId) attended recordId =
     update_attended s attended recordId"
  by (simp add: update_attended_def comp_def)

text \<open>
  C4, as the handler has it. For every recordId that is the id of no row of
  \<^verbatim>\<open>volunteer_roles\<close>, the handler answers 403, the status it also gives for an ownership
  mismatch, and the store (so every attended flag) is unchanged.
\<close>

theorem missing_record_forbidden:
  "recordId \<notin> vr_id ` set (volunteer_roles s) \<Longrightarrow>
     patch_attendance (Token u) recordId attended s = (SendStatus 403, s)"
proof -
  assume h: "recordId \<notin> vr_id ` set (volunteer_roles s)"
  have "x \<notin> set (recordCheck s recordId)" for x
    using h by (auto simp: recordCheck_mem)
  then have "recordCheck s recordId = []"
    by (cases "recordCheck s recordId") auto
  then show ?thesis by (simp add: patch_attendance_def authenticateToken_def)
qed

theorem missing_record_forbidden_witness:
  "7 \<notin> vr_id ` set (volunteer_roles demo_store) \<and>
   patch_attendance (Token \<lparr>userId = 1, userType = ''org''\<rparr>) 7 True demo_store =
     (SendStatus 403, demo_store)"
proof -
  have h: "7 \<notin> vr_id ` set (volunteer_roles demo_store)"
    by (simp add: demo_store_def)
  show ?thesis
    using h missing_record_forbidden [OF h] by simp
qed

text \<open>
  Record 7 does not exist in \<open>demo_store\<close>. The answer is not 404, and it is the answer an
  organization gets for a record of somebody else's event.
\<close>

theorem missing_record_not_found_counterexample:
  "7 \<notin> vr_id ` set (volunteer_roles demo_store) \<and>
   status (fst (patch_attendance (Token \<lparr>userId = 1, userType = ''org''\<rparr>) 7 True demo_store))
     \<noteq> 404 \<and>
   fst (patch_attendance (Token \<lparr>userId = 1, userType = ''org''\<rparr>) 7 True demo_store) =
   fst (patch_attendance (Token \<lparr>userId = 2, userType = ''org''\<rparr>) 1 True demo_store)"
  by (simp add: patch_attendance_def authenticateToken_def recordCheck_def demo_store_def)

text \<open>
  C6. The chain lookup assignment, role, event decides. If every event a record resolves to
  (through its role) has an organizer id other than the caller's id, the attendance update
  answers 403 and leaves the store as it was; if every event with the requested id has an
  organizer id other than the caller's id, the roster listing answers 403 and leaves the
  store as it was.
\<close>

theorem ownership_mismatch_forbidden:
  "((\<forall>vr\<in>set (volunteer_roles s). \<forall>r\<in>set (roles s). \<forall>e\<in>set (events s).
       vr_id vr = recordId \<and> vr_role_id vr = r_id r \<and> r_event_id r = e_id e
         \<longrightarrow> e_organizer_id e \<noteq> userId u)
     \<longrightarrow> patch_attendance (Token u) recordId attended s = (SendStatus 403, s)) \<and>
   ((\<forall>e\<in>set (events s). e_id e = eventId \<longrightarrow> e_organizer_id e \<noteq> userId u)
     \<longrightarrow> get_event_volunteers (Token u) eventId s = (SendStatus 403, s))"
proof (intro conjI impI)
  assume h: "\<forall>vr\<in>set (volunteer_roles s). \<forall>r\<in>set (roles s). \<forall>e\<in>set (events s).
       vr_id vr = recordId \<and> vr_role_id vr = r_id r \<and> r_event_id r = e_id e
         \<longrightarrow> e_organizer_id e \<noteq> userId u"
  have "userId u \<notin> set (recordCheck s recordId)"
    using h by (auto simp: recordCheck_mem)
  then show "patch_attendance (Token u) recordId attended s = (SendStatus 403, s)"
    by (cases "recordCheck s recordId") (auto simp: patch_attendance_def authenticateToken_def)
next
  assume h: "\<forall>e\<in>set (events s). e_id e = eventId \<longrightarrow> e_organizer_id e \<noteq> userId u"
  have "userId u \<notin> set (eventCheck s eventId)"
    using h by (auto simp: eventCheck_mem)
  then show "get_event_volunteers (Token u) eventId s = (SendStatus 403, s)"
    by (cases "eventCheck s eventId") (auto simp: get_event_volunteers_def authenticateToken_def)
qed

text \<open>Organization 2 on record 1 and on event 1, both of organization 1.\<close>

theorem ownership_mismatch_forbidden_witness:
  "patch_attendance (Token \<lparr>userId = 2, userType = ''org''\<rparr>) 1 True demo_store =
     (SendStatus 403, demo_store) \<and>
   get_event_volunteers (Token \<lparr>userId = 2, userType = ''org''\<rparr>) 1 demo_store =
     (SendStatus 403, demo_store)"
  using ownership_mismatch_forbidden
      [of demo_store 1 "\<lparr>userId = 2, userType = ''org''\<rparr>" True 1]
  by (simp add: demo_store_def)

text \<open>
  C9. When the ownership query's first row carries the caller's id, a call with an attended
  value answers 200 and yields the updated store, and a second call with the same value on
  that store answers 200 again and yields the same store.
\<close>

theorem attendance_idempotent:
  "recordCheck s recordId = userId u # others \<Longrightarrow>
     patch_attendance (Token u) recordId attended s =
       (JsonMessage 200 ''Attendance updated successfully'', update_attended s attended recordId) \<and>
     patch_attendance (Token u) recordId attended (update_attended s attended recordId) =
       (JsonMessage 200 ''Attendance updated successfully'', update_attended s attended recordId)"
  by (simp add: patch_attendance_def authenticateToken_def recordCheck_update_attended
      update_attended_twice)

theorem attendance_idempotent_witness:
  "recordCheck demo_store 1 = [1] \<and>
   patch_attendance (Token \<lparr>userId = 1, userType = ''org''\<rparr>) 1 True demo_store =
     (JsonMessage 200 ''Attendance updated successfully'', update_attended demo_store True 1) \<and>
   patch_attendance (Token \<lparr>userId = 1, userType = ''org''\<rparr>) 1 True
       (update_attended demo_store True 1) =
     (JsonMessage 200 ''Attendance updated successfully'', update_attended demo_store True 1) \<and>
   map vr_attended (volunteer_roles (update_attended demo_store True 1)) = [True]"
proof -
  have h: "recordCheck demo_store 1 = userId \<lparr>userId = 1, userType = ''org''\<rparr> # []"
    by (simp add: recordCheck_def demo_store_def)
  have "map vr_attended (volunteer_roles (update_attended demo_store True 1)) = [True]"
    by (simp add: update_attended_def demo_store_def)
  then show ?thesis
    using h attendance_idempotent [OF h, of True] by simp
qed

text \<open>
  C10. Neither ownership check looks at the kind in the token. Whatever kind string the
  token carries, a caller whose id is the organizer id in the first row of the ownership
  query gets the attendance update carried out (200), and one whose id is the organizer id
  of the requested event gets the roster (200).
\<close>

theorem ownership_ignores_kind:
  "(recordCheck s recordId = userId u # others \<longrightarrow>
      patch_attendance (Token (u\<lparr>userType := kind\<rparr>)) recordId attended s =
        (JsonMessage 200 ''Attendance updated successfully'',
         update_attended s attended recordId)) \<and>
   (eventCheck s eventId = userId u # others' \<longrightarrow>
      get_event_volunteers (Token (u\<lparr>userType := kind\<rparr>)) eventId s =
        (Json 200 (event_volunteers s eventId), s))"
  by (simp add: patch_attendance_def get_event_volunteers_def authenticateToken_def)

text \<open>A volunteer's token with id 1, the id of the organization that runs event 1.\<close>

theorem ownership_ignores_kind_witness:
  "recordCheck demo_store 1 = [1] \<and> eventCheck demo_store 1 = [1] \<and>
   patch_attendance (Token \<lparr>userId = 1, userType = ''volunteer''\<rparr>) 1 True demo_store =
     (JsonMessage 200 ''Attendance updated successfully'', update_attended demo_store True 1) \<and>
   get_event_volunteers (Token \<lparr>userId = 1, userType = ''volunteer''\<rparr>) 1 demo_store =
     (Json 200 (event_volunteers demo_store 1), demo_store)"
proof -
  have a: "recordCheck demo_store 1 = [1]" and b: "eventCheck demo_store 1 = [1]"
    by (simp_all add: recordCheck_def eventCheck_def demo_store_def)
  show ?thesis
    using a b ownership_ignores_kind
      [of demo_store 1 "\<lparr>userId = 1, userType = ''org''\<rparr>" "[]" "''volunteer''" True 1 "[]"]
    by simp
qed

end
